theory Spec2Isabelle
  imports Complex_Main
begin

section \<open>Data model\<close>

text \<open>
  The program is the class \<open>DataQualityDashboard\<close> of \<open>data-quality-dashboard.py\<close>. An
  instance holds a pandas DataFrame \<open>self.df\<close> and a dictionary \<open>self.metrics\<close>; its three
  \<open>calculate_*\<close> methods and \<open>generate_report\<close> read the frame and store their result in
  \<open>self.metrics\<close>.

  A cell of the frame is a missing value (\<open>None\<close>/\<open>NaN\<close>), a string, a number, or, once
  \<open>pd.to_datetime\<close> has run over its column, a timestamp (nanoseconds since the epoch) or
  the missing timestamp \<open>NaT\<close>.
\<close>

datatype cell = Null | Str string | Num int | Stamp int | NaT

text \<open>\<open>pd.isna\<close>: the values that \<open>count\<close>, \<open>value_counts\<close>, \<open>mean\<close>, \<open>max\<close> and \<open>min\<close> skip.\<close>

fun isna :: "cell \<Rightarrow> bool" where
  "isna Null = True"
| "isna NaT = True"
| "isna _ = False"

text \<open>
  Each column of a frame carries a dtype; \<open>select_dtypes(include=['object'])\<close> reads it and
  an assignment \<open>df[c] = series\<close> replaces it together with the values.
\<close>

datatype dtype = ObjectT | NumericT | Datetime64T

text \<open>
  A frame: the column labels in order, the dtype of each column, and the records in order.
  A record maps every column name to a cell; a key that a record lacks reads as \<open>Null\<close>,
  as in a frame built from a list of JSON objects.
\<close>

record dataframe =
  columns :: "string list"
  dtypes :: "string \<Rightarrow> dtype"
  rows :: "(string \<Rightarrow> cell) list"

text \<open>
  Numbers the metrics hold. A percentage is a Python float; the model keeps the exact
  rational value of a finite float and the two special values a division by zero of numpy
  scalars can give. The \<open>days\<close> attribute of a timedelta is an integer, that of \<open>NaT\<close> is
  \<open>nan\<close>.
\<close>

datatype pyfloat = Finite rat | NaN | Inf

datatype pydays = Days int | DaysNaN

datatype error = KeyError string | ZeroDivisionError | DateParseError string

record timeliness_metrics =
  average_age_days :: pydays
  oldest_record_days :: pydays
  newest_record_days :: pydays

record consistency_entry =
  unique_values :: nat
  unique_ratio :: pyfloat
  most_common :: "(cell \<times> nat) list"

text \<open>
  \<open>self.metrics\<close>: a dictionary with the keys \<open>'completeness'\<close>, \<open>'timeliness'\<close> and
  \<open>'consistency'\<close>, each present once the method of that name has stored its result.
\<close>

record metrics_dict =
  completeness :: "(string \<rightharpoonup> pyfloat) option"
  timeliness :: "timeliness_metrics option"
  consistency :: "(string \<rightharpoonup> consistency_entry) option"

record dashboard =
  df :: dataframe
  metrics :: metrics_dict

text \<open>\<open>self.metrics = {}\<close> of \<open>__init__\<close>.\<close>

definition no_metrics :: metrics_dict where
  "no_metrics = \<lparr>completeness = None, timeliness = None, consistency = None\<rparr>"

definition init :: "dataframe \<Rightarrow> dashboard" where
  "init d = \<lparr>df = d, metrics = no_metrics\<rparr>"

section \<open>Frame operations used by the methods\<close>

text \<open>\<open>len(self.df)\<close>: the number of records.\<close>

definition len :: "dataframe \<Rightarrow> nat" where
  "len d = length (rows d)"

text \<open>\<open>self.df[col]\<close>: the column as a series, \<open>KeyError\<close> when the frame has no such label.\<close>

definition getitem :: "dataframe \<Rightarrow> string \<Rightarrow> error + cell list" where
  "getitem d col =
     (if col \<in> set (columns d) then Inr (map (\<lambda>r. r col) (rows d)) else Inl (KeyError col))"

text \<open>\<open>Series.count()\<close>: the number of non-missing values, a numpy \<open>int64\<close>.\<close>

definition count :: "cell list \<Rightarrow> nat" where
  "count series = length (filter (\<lambda>c. \<not> isna c) series)"

text \<open>
  \<open>/\<close> with a numpy integer on the left (the result of \<open>count\<close>): numpy's true division
  raises nothing on a zero divisor, it gives \<open>nan\<close> for \<open>0 / 0\<close> and \<open>inf\<close> for a positive
  numerator (and emits a warning, which is not modelled).
\<close>

definition np_true_divide :: "nat \<Rightarrow> nat \<Rightarrow> pyfloat" where
  "np_true_divide a b =
     (if b = 0 then (if a = 0 then NaN else Inf) else Finite (of_nat a / of_nat b))"

text \<open>\<open>/\<close> between two Python integers (two results of \<open>len\<close>): a zero divisor raises.\<close>

definition py_true_divide :: "nat \<Rightarrow> nat \<Rightarrow> error + pyfloat" where
  "py_true_divide a b =
     (if b = 0 then Inl ZeroDivisionError else Inr (Finite (of_nat a / of_nat b)))"

text \<open>\<open>x * 100\<close> on a float.\<close>

fun times100 :: "pyfloat \<Rightarrow> pyfloat" where
  "times100 (Finite q) = Finite (q * 100)"
| "times100 NaN = NaN"
| "times100 Inf = Inf"

text \<open>\<open>if not columns: columns = default\<close>: \<open>None\<close> and the empty list are both falsy.\<close>

fun or_default :: "string list option \<Rightarrow> string list \<Rightarrow> string list" where
  "or_default None dflt = dflt"
| "or_default (Some []) dflt = dflt"
| "or_default (Some cs) dflt = cs"

section \<open>calculate_completeness\<close>

text \<open>
  The loop \<open>for col in columns\<close> of \<open>calculate_completeness\<close>, with the dictionary
  \<open>completeness_scores\<close> as accumulator. A \<open>KeyError\<close> leaves the loop at once.
\<close>

fun completeness_loop ::
  "dataframe \<Rightarrow> string list \<Rightarrow> (string \<rightharpoonup> pyfloat) \<Rightarrow> error + (string \<rightharpoonup> pyfloat)" where
  "completeness_loop d [] completeness_scores = Inr completeness_scores"
| "completeness_loop d (col # cols) completeness_scores =
     (case getitem d col of
        Inl e \<Rightarrow> Inl e
      | Inr series \<Rightarrow>
          (let non_null_count = count series;
               total_count = len d
           in completeness_loop d cols
                (completeness_scores(col \<mapsto> times100 (np_true_divide non_null_count total_count)))))"

text \<open>
  The method returns its outcome and the state of the instance after the call. The result is
  stored under \<open>'completeness'\<close> only when the loop has finished.
\<close>

definition calculate_completeness ::
  "string list option \<Rightarrow> dashboard \<Rightarrow> (error + (string \<rightharpoonup> pyfloat)) \<times> dashboard" where
  "calculate_completeness columns_arg s =
     (case completeness_loop (df s) (or_default columns_arg (columns (df s))) Map.empty of
        Inl e \<Rightarrow> (Inl e, s)
      | Inr completeness_scores \<Rightarrow>
          (Inr completeness_scores,
           s\<lparr>metrics := (metrics s)\<lparr>completeness := Some completeness_scores\<rparr>\<rparr>))"

section \<open>calculate_timeliness\<close>

text \<open>
  \<open>pd.to_datetime\<close> on one value, with its default \<open>errors='raise'\<close>. A missing value
  becomes \<open>NaT\<close>, a timestamp stays, a number is read as nanoseconds since the epoch, and a
  string goes through the date parser, which is a parameter of the model: \<open>parse s\<close> is the
  timestamp of \<open>s\<close>, or \<open>None\<close> when the parser rejects \<open>s\<close>, and then the call raises.
  Timestamps are unbounded integers here (pandas raises outside the range of 64 bits), and
  all of them are naive (no time zone), as \<open>pd.Timestamp.now()\<close> is.
\<close>

fun to_datetime_cell :: "(string \<Rightarrow> int option) \<Rightarrow> cell \<Rightarrow> error + cell" where
  "to_datetime_cell parse Null = Inr NaT"
| "to_datetime_cell parse NaT = Inr NaT"
| "to_datetime_cell parse (Stamp t) = Inr (Stamp t)"
| "to_datetime_cell parse (Num n) = Inr (Stamp n)"
| "to_datetime_cell parse (Str s) =
     (case parse s of None \<Rightarrow> Inl (DateParseError s) | Some t \<Rightarrow> Inr (Stamp t))"

text \<open>\<open>pd.to_datetime\<close> on a series: the first value that does not parse raises.\<close>

fun to_datetime :: "(string \<Rightarrow> int option) \<Rightarrow> cell list \<Rightarrow> error + cell list" where
  "to_datetime parse [] = Inr []"
| "to_datetime parse (c # cs) =
     (case to_datetime_cell parse c of
        Inl e \<Rightarrow> Inl e
      | Inr c' \<Rightarrow>
          (case to_datetime parse cs of
             Inl e \<Rightarrow> Inl e
           | Inr cs' \<Rightarrow> Inr (c' # cs')))"

text \<open>\<open>self.df[col] = series\<close> for a label the frame has: values and dtype are replaced.\<close>

definition setitem :: "dataframe \<Rightarrow> string \<Rightarrow> dtype \<Rightarrow> cell list \<Rightarrow> dataframe" where
  "setitem d col ty series =
     d\<lparr>dtypes := (dtypes d)(col := ty),
       rows := map (\<lambda>(r, v). r(col := v)) (zip (rows d) series)\<rparr>"

text \<open>
  \<open>current_time - series\<close>: a timedelta in nanoseconds for each timestamp, \<open>NaT\<close> (here
  \<open>None\<close>) for each missing one.
\<close>

fun time_difference :: "int \<Rightarrow> cell \<Rightarrow> int option" where
  "time_difference current_time (Stamp t) = Some (current_time - t)"
| "time_difference current_time _ = None"

text \<open>The values that the reductions keep (\<open>skipna=True\<close>).\<close>

fun dropna :: "int option list \<Rightarrow> int list" where
  "dropna [] = []"
| "dropna (None # xs) = dropna xs"
| "dropna (Some x # xs) = x # dropna xs"

text \<open>
  \<open>Series.mean()\<close> of timedeltas: the sum of the kept values is divided by their number and
  the quotient is cut to a whole number of nanoseconds towards zero (\<open>np.int64\<close> of a float);
  with no value kept the mean is \<open>NaT\<close>. pandas forms the sum and the quotient in 64-bit
  floats; the model keeps them exact.
\<close>

definition trunc_div :: "int \<Rightarrow> int \<Rightarrow> int" where
  "trunc_div a b = (if 0 \<le> a then a div b else - ((- a) div b))"

definition td_mean :: "int option list \<Rightarrow> int option" where
  "td_mean tds =
     (case dropna tds of
        [] \<Rightarrow> None
      | x # xs \<Rightarrow> Some (trunc_div (sum_list (x # xs)) (int (length (x # xs)))))"

definition td_max :: "int option list \<Rightarrow> int option" where
  "td_max tds = (case dropna tds of [] \<Rightarrow> None | x # xs \<Rightarrow> Some (fold max xs x))"

definition td_min :: "int option list \<Rightarrow> int option" where
  "td_min tds = (case dropna tds of [] \<Rightarrow> None | x # xs \<Rightarrow> Some (fold min xs x))"

text \<open>
  The \<open>days\<close> attribute: the whole days of a timedelta, rounded down (a timedelta of minus
  one hour has \<open>days = -1\<close>); \<open>NaT.days\<close> is \<open>nan\<close>.
\<close>

definition day_ns :: int where
  "day_ns = 86400000000000"

fun days :: "int option \<Rightarrow> pydays" where
  "days None = DaysNaN"
| "days (Some td) = Days (td div day_ns)"

text \<open>
  The method takes the date parser and the reading of the clock (\<open>pd.Timestamp.now()\<close>) as
  parameters. An absent column returns \<open>None\<close> and changes nothing. Otherwise the column is
  converted and written back into \<open>self.df\<close>, then read again for the differences.
\<close>

definition calculate_timeliness ::
  "(string \<Rightarrow> int option) \<Rightarrow> int \<Rightarrow> string \<Rightarrow> dashboard
     \<Rightarrow> (error + timeliness_metrics option) \<times> dashboard" where
  "calculate_timeliness parse current_time date_column s =
     (if date_column \<notin> set (columns (df s)) then (Inr None, s)
      else
        (case getitem (df s) date_column of
           Inl e \<Rightarrow> (Inl e, s)
         | Inr series \<Rightarrow>
             (case to_datetime parse series of
                Inl e \<Rightarrow> (Inl e, s)
              | Inr converted \<Rightarrow>
                  (let s1 = s\<lparr>df := setitem (df s) date_column Datetime64T converted\<rparr>
                   in case getitem (df s1) date_column of
                        Inl e \<Rightarrow> (Inl e, s1)
                      | Inr series1 \<Rightarrow>
                          (let time_differences = map (time_difference current_time) series1;
                               timeliness_metrics =
                                 \<lparr>average_age_days = days (td_mean time_differences),
                                  oldest_record_days = days (td_max time_differences),
                                  newest_record_days = days (td_min time_differences)\<rparr>
                           in (Inr (Some timeliness_metrics),
                               s1\<lparr>metrics :=
                                    (metrics s1)\<lparr>timeliness := Some timeliness_metrics\<rparr>\<rparr>))))))"

section \<open>calculate_consistency\<close>

text \<open>
  \<open>Series.value_counts()\<close>: missing values are dropped (\<open>dropna=True\<close>), the distinct values
  are collected in the order of their first appearance with their number of occurrences,
  and the table is sorted by descending count. The order among entries of equal count is not
  written in the program, it is that of pandas: the model takes its sort as stable, so that
  entries of equal count keep the order of first appearance.
\<close>

function uniques :: "'a list \<Rightarrow> 'a list" where
  "uniques [] = []"
| "uniques (x # xs) = x # uniques (filter (\<lambda>y. y \<noteq> x) xs)"
  by pat_completeness auto
termination
  by (relation "measure length") (auto simp: less_Suc_eq_le)

definition value_counts :: "cell list \<Rightarrow> (cell \<times> nat) list" where
  "value_counts series =
     (let kept = filter (\<lambda>c. \<not> isna c) series
      in sort_key (\<lambda>(v, n). - int n) (map (\<lambda>v. (v, count_list kept v)) (uniques kept)))"

text \<open>\<open>self.df.select_dtypes(include=['object']).columns\<close>.\<close>

definition select_dtypes_object :: "dataframe \<Rightarrow> string list" where
  "select_dtypes_object d = filter (\<lambda>c. dtypes d c = ObjectT) (columns d)"

text \<open>
  The loop \<open>for col in categorical_columns\<close>. Both operands of the division are results of
  \<open>len\<close>, Python integers: on a frame without records the division raises.
  \<open>head(3).to_dict()\<close> keeps the first three entries, in order.
\<close>

fun consistency_loop ::
  "dataframe \<Rightarrow> string list \<Rightarrow> (string \<rightharpoonup> consistency_entry)
     \<Rightarrow> error + (string \<rightharpoonup> consistency_entry)" where
  "consistency_loop d [] consistency_metrics = Inr consistency_metrics"
| "consistency_loop d (col # cols) consistency_metrics =
     (case getitem d col of
        Inl e \<Rightarrow> Inl e
      | Inr series \<Rightarrow>
          (let counts = value_counts series
           in case py_true_divide (length counts) (len d) of
                Inl e \<Rightarrow> Inl e
              | Inr q \<Rightarrow>
                  consistency_loop d cols
                    (consistency_metrics(col \<mapsto>
                       \<lparr>unique_values = length counts,
                        unique_ratio = times100 q,
                        most_common = take 3 counts\<rparr>))))"

definition calculate_consistency ::
  "string list option \<Rightarrow> dashboard
     \<Rightarrow> (error + (string \<rightharpoonup> consistency_entry)) \<times> dashboard" where
  "calculate_consistency categorical_columns s =
     (case consistency_loop (df s)
             (or_default categorical_columns (select_dtypes_object (df s))) Map.empty of
        Inl e \<Rightarrow> (Inl e, s)
      | Inr consistency_metrics \<Rightarrow>
          (Inr consistency_metrics,
           s\<lparr>metrics := (metrics s)\<lparr>consistency := Some consistency_metrics\<rparr>\<rparr>))"

section \<open>generate_report\<close>





section \<open>Notions used in the statements\<close>

text \<open>The values of a column, in the order of the records.\<close>

definition column :: "dataframe \<Rightarrow> string \<Rightarrow> cell list" where
  "column d c = map (\<lambda>r. r c) (rows d)"

text \<open>The columns a call works on: the argument, or the default when it is falsy.\<close>

definition requested :: "string list option \<Rightarrow> string list \<Rightarrow> string list" where
  "requested arg dflt = or_default arg dflt"

text \<open>The completeness score of one column, as the loop body computes it.\<close>

definition score :: "dataframe \<Rightarrow> string \<Rightarrow> pyfloat" where
  "score d c = times100 (np_true_divide (count (column d c)) (len d))"

section \<open>Example frames\<close>

text \<open>A frame with one column and no record, as \<open>read_csv\<close> gives for a header line alone.\<close>

definition empty_frame :: dataframe where
  "empty_frame = \<lparr>columns = [''status''], dtypes = (\<lambda>_. ObjectT), rows = []\<rparr>"

text \<open>The entry of one column in the consistency dictionary, as the loop body computes it.\<close>

definition entry :: "dataframe \<Rightarrow> string \<Rightarrow> consistency_entry" where
  "entry d c =
     \<lparr>unique_values = length (value_counts (column d c)),
      unique_ratio =
        times100 (Finite (of_nat (length (value_counts (column d c))) / of_nat (len d))),
      most_common = take 3 (value_counts (column d c))\<rparr>"



text \<open>A record with the given fields, every other key missing.\<close>

definition rec_of :: "(string \<times> cell) list \<Rightarrow> string \<Rightarrow> cell" where
  "rec_of kvs k = (case map_of kvs k of None \<Rightarrow> Null | Some v \<Rightarrow> v)"

text \<open>A column with ties between the counts of its values, and one missing value.\<close>

definition ties_frame :: dataframe where
  "ties_frame =
     \<lparr>columns = [''borough''], dtypes = (\<lambda>_. ObjectT),
      rows = map (\<lambda>v. rec_of [(''borough'', v)])
        [Str ''b'', Str ''a'', Null, Str ''a'', Str ''c'', Str ''b'', Str ''d'', Str ''d'',
         Str ''d'']\<rparr>"

text \<open>Half of the records missing, the others pairwise distinct.\<close>

definition half_null_frame :: dataframe where
  "half_null_frame =
     \<lparr>columns = [''agency''], dtypes = (\<lambda>_. ObjectT),
      rows = map (\<lambda>v. rec_of [(''agency'', v)]) [Str ''NYPD'', Null, Str ''DOT'', Null]\<rparr>"

text \<open>A column without any value, beside a complete one.\<close>

definition all_null_frame :: dataframe where
  "all_null_frame =
     \<lparr>columns = [''status'', ''closed_date''], dtypes = (\<lambda>_. ObjectT),
      rows = [rec_of [(''status'', Str ''Open'')], rec_of [(''status'', Str ''Closed'')]]\<rparr>"

text \<open>The timestamp a value of the date column stands for; a missing value has none.\<close>

fun timestamp_of :: "(string \<Rightarrow> int option) \<Rightarrow> cell \<Rightarrow> int option" where
  "timestamp_of parse Null = None"
| "timestamp_of parse NaT = None"
| "timestamp_of parse (Stamp t) = Some t"
| "timestamp_of parse (Num n) = Some n"
| "timestamp_of parse (Str s) = parse s"

text \<open>A value is parsable when it is missing or has a timestamp.\<close>

definition parsable :: "(string \<Rightarrow> int option) \<Rightarrow> cell \<Rightarrow> bool" where
  "parsable parse v = (isna v \<or> timestamp_of parse v \<noteq> None)"

text \<open>What the conversion makes of a parsable value.\<close>

definition converted :: "(string \<Rightarrow> int option) \<Rightarrow> cell \<Rightarrow> cell" where
  "converted parse v = (case timestamp_of parse v of None \<Rightarrow> NaT | Some t \<Rightarrow> Stamp t)"

text \<open>
  The ages of the records: the time elapsed from each timestamp of the series to the clock
  reading, in nanoseconds. Missing values contribute nothing.
\<close>

fun ages :: "(string \<Rightarrow> int option) \<Rightarrow> int \<Rightarrow> cell list \<Rightarrow> int list" where
  "ages parse current_time [] = []"
| "ages parse current_time (v # vs) =
     (case timestamp_of parse v of
        None \<Rightarrow> ages parse current_time vs
      | Some t \<Rightarrow> (current_time - t) # ages parse current_time vs)"

text \<open>The three metrics as functions of the ages.\<close>

definition metrics_of_ages :: "int list \<Rightarrow> timeliness_metrics" where
  "metrics_of_ages a =
     (case a of
        [] \<Rightarrow>
          \<lparr>average_age_days = DaysNaN, oldest_record_days = DaysNaN,
           newest_record_days = DaysNaN\<rparr>
      | x # xs \<Rightarrow>
          \<lparr>average_age_days = Days (trunc_div (sum_list a) (int (length a)) div day_ns),
           oldest_record_days = Days (Max (set a) div day_ns),
           newest_record_days = Days (Min (set a) div day_ns)\<rparr>)"

text \<open>
  Three records, the last one without a date; the parser of the examples knows the two
  dates, as nanoseconds since the epoch.
\<close>

definition dates_frame :: dataframe where
  "dates_frame =
     \<lparr>columns = [''status'', ''created_date''], dtypes = (\<lambda>_. ObjectT),
      rows =
        [rec_of [(''status'', Str ''Open''), (''created_date'', Str ''2024-01-01'')],
         rec_of [(''status'', Str ''Closed''), (''created_date'', Str ''2024-01-02'')],
         rec_of [(''status'', Str ''Open'')]]\<rparr>"

definition example_parse :: "string \<Rightarrow> int option" where
  "example_parse =
     [''2024-01-01'' \<mapsto> 1704067200000000000, ''2024-01-02'' \<mapsto> 1704153600000000000]"


definition noon_jan_1 :: int where
  "noon_jan_1 = 1704110400000000000"


section \<open>Reading a column\<close>

lemma getitem_present: "c \<in> set (columns d) \<Longrightarrow> getitem d c = Inr (column d c)"
  by (simp add: getitem_def column_def)

lemma getitem_absent: "c \<notin> set (columns d) \<Longrightarrow> getitem d c = Inl (KeyError c)"
  by (simp add: getitem_def)

section \<open>Completeness\<close>

text \<open>
  With every requested label in the frame the loop finishes, and the dictionary holds the
  score of each requested column; a label the frame lacks raises.
\<close>

lemma completeness_loop_present:
  "set cs \<subseteq> set (columns d) \<Longrightarrow>
   completeness_loop d cs acc = Inr (\<lambda>c. if c \<in> set cs then Some (score d c) else acc c)"
proof (induction cs arbitrary: acc)
  case Nil
  then show ?case by simp
next
  case (Cons a cs)
  then have a: "getitem d a = Inr (column d a)" and cs: "set cs \<subseteq> set (columns d)"
    by (simp_all add: getitem_present)
  show ?case
    by (simp add: a Cons.IH [OF cs] score_def fun_eq_iff)
qed

lemma calculate_completeness_state:
  "set (requested cols (columns (df s))) \<subseteq> set (columns (df s)) \<Longrightarrow>
   calculate_completeness cols s =
     (Inr (\<lambda>c. if c \<in> set (requested cols (columns (df s)))
               then Some (score (df s) c) else None),
      s\<lparr>metrics := (metrics s)\<lparr>completeness :=
           Some (\<lambda>c. if c \<in> set (requested cols (columns (df s)))
                      then Some (score (df s) c) else None)\<rparr>\<rparr>)"
  by (simp add: calculate_completeness_def completeness_loop_present requested_def)

lemma calculate_completeness_present:
  "set (requested cols (columns (df s))) \<subseteq> set (columns (df s)) \<Longrightarrow>
   fst (calculate_completeness cols s) =
     Inr (\<lambda>c. if c \<in> set (requested cols (columns (df s))) then Some (score (df s) c) else None)"
  by (simp add: calculate_completeness_state)

lemma score_empty: "rows d = [] \<Longrightarrow> score d c = NaN"
  by (simp add: score_def column_def count_def len_def np_true_divide_def)

text \<open>
  C1. On the empty dataset the completeness of a requested column is not 0 and no error is
  raised: at a frame with the column \<open>status\<close> and no record the call returns a dictionary
  whose score for \<open>status\<close> is \<open>nan\<close>.
\<close>

theorem completeness_empty_dataset_counterexample:
  "(case fst (calculate_completeness (Some [''status'']) (init empty_frame)) of
      Inl e \<Rightarrow> False
    | Inr m \<Rightarrow> m ''status'' = Some NaN \<and> m ''status'' \<noteq> Some (Finite 0))"
  by (simp add: calculate_completeness_def init_def empty_frame_def getitem_def count_def
      len_def np_true_divide_def)

text \<open>
  C1, as the code has it. For a dataset without records, and requested columns that are all
  columns of the dataset, \<open>calculate_completeness\<close> returns without raising and the score of
  every requested column is \<open>nan\<close>, the value of the unguarded division \<open>0 / 0\<close>.
\<close>

theorem completeness_empty_dataset_nan:
  assumes "rows (df s) = []"
    and "set (requested cols (columns (df s))) \<subseteq> set (columns (df s))"
    and "c \<in> set (requested cols (columns (df s)))"
  shows "\<exists>m. fst (calculate_completeness cols s) = Inr m \<and> m c = Some NaN"
  using assms by (simp add: calculate_completeness_present score_empty)

theorem completeness_empty_dataset_nan_witness:
  "rows (df (init empty_frame)) = [] \<and>
   (\<exists>m. fst (calculate_completeness None (init empty_frame)) = Inr m \<and> m ''status'' = Some NaN)"
  using completeness_empty_dataset_nan [of "init empty_frame" None "''status''"]
  by (simp add: init_def empty_frame_def requested_def)

section \<open>The table of value counts\<close>

lemma set_uniques: "set (uniques xs) = set xs"
  by (induction xs rule: uniques.induct) auto

lemma distinct_uniques: "distinct (uniques xs)"
  by (induction xs rule: uniques.induct) (auto simp: set_uniques)

lemma length_uniques: "length (uniques xs) = card (set xs)"
  using distinct_card [OF distinct_uniques, of xs] by (simp add: set_uniques)






lemma set_value_counts:
  "set (value_counts series) = (\<lambda>v. (v, count_list series v)) ` {v \<in> set series. \<not> isna v}"
proof -
  have "count_list (filter (\<lambda>c. \<not> isna c) series) v = count_list series v" if "\<not> isna v" for v
    using that by (induction series) auto
  then show ?thesis
    by (auto simp: value_counts_def Let_def set_uniques)
qed

lemma length_value_counts:
  "length (value_counts series) = card {v \<in> set series. \<not> isna v}"
proof -
  have "{v \<in> set series. \<not> isna v} = set (filter (\<lambda>c. \<not> isna c) series)" by auto
  then show ?thesis by (simp add: value_counts_def Let_def length_uniques)
qed

lemma length_value_counts_le: "length (value_counts series) \<le> length series"
proof -
  have "length (value_counts series) = card (set (filter (\<lambda>c. \<not> isna c) series))"
    by (simp add: value_counts_def Let_def length_uniques)
  also have "\<dots> \<le> length (filter (\<lambda>c. \<not> isna c) series)" by (rule card_length)
  also have "\<dots> \<le> length series" by simp
  finally show ?thesis .
qed

lemma value_counts_all_null: "\<forall>v \<in> set series. isna v \<Longrightarrow> value_counts series = []"
proof -
  assume "\<forall>v \<in> set series. isna v"
  then have "filter (\<lambda>c. \<not> isna c) series = []" by (simp add: filter_empty_conv)
  then show ?thesis by (simp add: value_counts_def)
qed

section \<open>Consistency\<close>

text \<open>
  On a frame with at least one record and with every requested label, the loop finishes and
  the dictionary holds the entry of each requested column.
\<close>

lemma consistency_loop_present:
  "rows d \<noteq> [] \<Longrightarrow> set cs \<subseteq> set (columns d) \<Longrightarrow>
   consistency_loop d cs acc = Inr (\<lambda>c. if c \<in> set cs then Some (entry d c) else acc c)"
proof (induction cs arbitrary: acc)
  case Nil
  then show ?case by simp
next
  case (Cons a cs)
  then have a: "getitem d a = Inr (column d a)" and cs: "set cs \<subseteq> set (columns d)"
    by (simp_all add: getitem_present)
  from Cons.prems have len: "len d \<noteq> 0" by (simp add: len_def)
  show ?case
    by (simp add: a len Cons.IH [OF Cons.prems(1) cs] py_true_divide_def entry_def fun_eq_iff
        Let_def)
qed

lemma calculate_consistency_state:
  "rows (df s) \<noteq> [] \<Longrightarrow>
   set (requested cols (select_dtypes_object (df s))) \<subseteq> set (columns (df s)) \<Longrightarrow>
   calculate_consistency cols s =
     (Inr (\<lambda>c. if c \<in> set (requested cols (select_dtypes_object (df s)))
               then Some (entry (df s) c) else None),
      s\<lparr>metrics := (metrics s)\<lparr>consistency :=
           Some (\<lambda>c. if c \<in> set (requested cols (select_dtypes_object (df s)))
                      then Some (entry (df s) c) else None)\<rparr>\<rparr>)"
  by (simp add: calculate_consistency_def consistency_loop_present requested_def)

lemma calculate_consistency_present:
  "rows (df s) \<noteq> [] \<Longrightarrow>
   set (requested cols (select_dtypes_object (df s))) \<subseteq> set (columns (df s)) \<Longrightarrow>
   fst (calculate_consistency cols s) =
     Inr (\<lambda>c. if c \<in> set (requested cols (select_dtypes_object (df s)))
              then Some (entry (df s) c) else None)"
  by (simp add: calculate_consistency_state)

lemma ratio_bounds:
  fixes a b :: nat
  assumes "a \<le> b" and "b \<noteq> 0"
  shows "0 \<le> (of_nat a / of_nat b * 100 :: rat)" and "(of_nat a / of_nat b * 100 :: rat) \<le> 100"
proof -
  from assms have "(of_nat a :: rat) \<le> of_nat b" and "0 < (of_nat b :: rat)" by simp_all
  then have "(of_nat a / of_nat b :: rat) \<le> 1" by (simp add: divide_le_eq_1)
  then have "(of_nat a / of_nat b :: rat) * 100 \<le> 1 * 100" by (rule mult_right_mono) simp
  then show "(of_nat a / of_nat b * 100 :: rat) \<le> 100" by simp
  show "0 \<le> (of_nat a / of_nat b * 100 :: rat)" by simp
qed

text \<open>
  Conversely, a returning call has found every requested label, and an entry in its result
  belongs to a requested column of a dataset that has a record: without records the first
  requested column already raises.
\<close>

lemma consistency_loop_Inr:
  "consistency_loop d cs acc = Inr m \<Longrightarrow> set cs \<subseteq> set (columns d)"
proof (induction cs arbitrary: acc)
  case Nil
  then show ?case by simp
next
  case (Cons a cs)
  show ?case
  proof (cases "a \<in> set (columns d)")
    case True
    with Cons show ?thesis
      by (auto simp: getitem_present Let_def split: sum.splits)
  next
    case False
    with Cons.prems show ?thesis by (simp add: getitem_absent)
  qed
qed

lemma consistency_loop_no_records:
  assumes "rows d = []" and "consistency_loop d cs acc = Inr m"
  shows "cs = []"
proof (cases cs)
  case Nil
  then show ?thesis .
next
  case (Cons a cs')
  with assms show ?thesis
    by (cases "getitem d a") (simp_all add: py_true_divide_def len_def Let_def)
qed

lemma calculate_consistency_Inr:
  assumes "fst (calculate_consistency cols s) = Inr m" and "m c = Some e"
  shows "rows (df s) \<noteq> []" and "e = entry (df s) c"
proof -
  let ?cs = "requested cols (select_dtypes_object (df s))"
  from assms(1) have loop: "consistency_loop (df s) ?cs Map.empty = Inr m"
    by (simp add: calculate_consistency_def requested_def split: sum.splits)
  show rows: "rows (df s) \<noteq> []"
  proof
    assume "rows (df s) = []"
    then have "?cs = []" using loop by (rule consistency_loop_no_records)
    with loop have "m = Map.empty" by simp
    with assms(2) show False by simp
  qed
  from loop have "set ?cs \<subseteq> set (columns (df s))" by (rule consistency_loop_Inr)
  with loop rows have "m = (\<lambda>c. if c \<in> set ?cs then Some (entry (df s) c) else None)"
    by (simp add: consistency_loop_present)
  with assms(2) show "e = entry (df s) c" by (simp split: if_splits)
qed

section \<open>Properties of the consistency entries\<close>



text \<open>The table of the example: \<open>b\<close> and \<open>a\<close> both occur twice, and \<open>b\<close> is met first.\<close>

lemma most_common_ties_frame:
  "take 3 (value_counts (column ties_frame ''borough'')) =
     [(Str ''d'', 3), (Str ''b'', 2), (Str ''a'', 2)]"
  by (simp add: value_counts_def column_def ties_frame_def rec_of_def Let_def)

text \<open>
  C8. In every entry that \<open>calculate_consistency\<close> returns for a column, \<open>unique_ratio\<close> is
  the number of distinct non-missing values of the column divided by the number of all
  records, times 100. An entry is returned for every requested column when the dataset has
  a record and the requested columns are columns of the dataset.
\<close>

theorem unique_ratio_total_count:
  "(\<forall>m e. fst (calculate_consistency cols s) = Inr m \<and> m c = Some e \<longrightarrow>
      unique_ratio e =
        Finite (of_nat (card {v \<in> set (column (df s) c). \<not> isna v})
                  / of_nat (length (rows (df s))) * 100)) \<and>
   (rows (df s) \<noteq> [] \<and>
    set (requested cols (select_dtypes_object (df s))) \<subseteq> set (columns (df s)) \<and>
    c \<in> set (requested cols (select_dtypes_object (df s))) \<longrightarrow>
      (\<exists>m e. fst (calculate_consistency cols s) = Inr m \<and> m c = Some e))"
proof (intro conjI allI impI)
  fix m e
  assume "fst (calculate_consistency cols s) = Inr m \<and> m c = Some e"
  then have "e = entry (df s) c" by (auto dest: calculate_consistency_Inr(2))
  then show "unique_ratio e =
      Finite (of_nat (card {v \<in> set (column (df s) c). \<not> isna v})
                / of_nat (length (rows (df s))) * 100)"
    by (simp add: entry_def length_value_counts len_def)
next
  assume "rows (df s) \<noteq> [] \<and>
    set (requested cols (select_dtypes_object (df s))) \<subseteq> set (columns (df s)) \<and>
    c \<in> set (requested cols (select_dtypes_object (df s)))"
  then show "\<exists>m e. fst (calculate_consistency cols s) = Inr m \<and> m c = Some e"
    by (simp add: calculate_consistency_present)
qed

text \<open>
  Two of four records are missing and the other two are distinct: the ratio is
  \<open>2 / 4 * 100 = 50\<close>, not the \<open>100\<close> that the non-missing count as divisor would give.
\<close>

theorem unique_ratio_total_count_witness:
  "length (rows (df (init half_null_frame))) = 4 \<and>
   count (column (df (init half_null_frame)) ''agency'') = 2 \<and>
   (\<exists>m e. fst (calculate_consistency (Some [''agency'']) (init half_null_frame)) = Inr m \<and>
      m ''agency'' = Some e \<and> unique_ratio e = Finite 50)"
proof -
  note ratio = unique_ratio_total_count [of "Some [''agency'']" "init half_null_frame" "''agency''"]
  have "rows (df (init half_null_frame)) \<noteq> [] \<and>
      set (requested (Some [''agency'']) (select_dtypes_object (df (init half_null_frame))))
        \<subseteq> set (columns (df (init half_null_frame))) \<and>
      ''agency''
        \<in> set (requested (Some [''agency'']) (select_dtypes_object (df (init half_null_frame))))"
    by (simp add: init_def half_null_frame_def requested_def)
  with ratio obtain m e
    where ret: "fst (calculate_consistency (Some [''agency'']) (init half_null_frame)) = Inr m \<and>
                m ''agency'' = Some e"
    by blast
  have "{v \<in> set (column (df (init half_null_frame)) ''agency''). \<not> isna v}
          = {Str ''NYPD'', Str ''DOT''}"
    by (auto simp: init_def half_null_frame_def column_def rec_of_def)
  then have distinct: "card {v \<in> set (column (df (init half_null_frame)) ''agency''). \<not> isna v} = 2"
    by simp
  have four: "length (rows (df (init half_null_frame))) = 4"
    and two: "count (column (df (init half_null_frame)) ''agency'') = 2"
    by (simp_all add: init_def half_null_frame_def column_def count_def rec_of_def)
  from ratio ret have "unique_ratio e =
      Finite (of_nat (card {v \<in> set (column (df (init half_null_frame)) ''agency''). \<not> isna v})
                / of_nat (length (rows (df (init half_null_frame)))) * 100)"
    by blast
  then have "unique_ratio e = Finite 50" by (simp add: distinct four)
  with ret four two show ?thesis by blast
qed

text \<open>
  C10. In every entry that \<open>calculate_consistency\<close> returns for a column, \<open>unique_values\<close> is
  the number of distinct non-missing values of the column, no key of \<open>most_common\<close> is a
  missing value, and when all values of the column are missing the entry has
  \<open>unique_values = 0\<close>, \<open>unique_ratio = 0\<close> and an empty \<open>most_common\<close>. An entry is returned
  for every requested column when the dataset has a record and the requested columns are
  columns of the dataset.
\<close>

theorem consistency_drops_missing:
  "(\<forall>m e. fst (calculate_consistency cols s) = Inr m \<and> m c = Some e \<longrightarrow>
      unique_values e = card {v \<in> set (column (df s) c). \<not> isna v} \<and>
      (\<forall>(v, n) \<in> set (most_common e). \<not> isna v) \<and>
      ((\<forall>v \<in> set (column (df s) c). isna v) \<longrightarrow>
         unique_values e = 0 \<and> unique_ratio e = Finite 0 \<and> most_common e = [])) \<and>
   (rows (df s) \<noteq> [] \<and>
    set (requested cols (select_dtypes_object (df s))) \<subseteq> set (columns (df s)) \<and>
    c \<in> set (requested cols (select_dtypes_object (df s))) \<longrightarrow>
      (\<exists>m e. fst (calculate_consistency cols s) = Inr m \<and> m c = Some e))"
proof (intro conjI allI impI)
  fix m e
  assume "fst (calculate_consistency cols s) = Inr m \<and> m c = Some e"
  then have e: "e = entry (df s) c" by (auto dest: calculate_consistency_Inr(2))
  let ?vc = "value_counts (column (df s) c)"
  show "unique_values e = card {v \<in> set (column (df s) c). \<not> isna v}"
    by (simp add: e entry_def length_value_counts)
  have "\<forall>(v, n) \<in> set (take 3 ?vc). \<not> isna v"
    using set_take_subset [of 3 ?vc] by (auto simp: set_value_counts)
  then show "\<forall>(v, n) \<in> set (most_common e). \<not> isna v"
    by (simp add: e entry_def)
  assume "\<forall>v \<in> set (column (df s) c). isna v"
  then have "?vc = []" by (rule value_counts_all_null)
  then show "unique_values e = 0" and "unique_ratio e = Finite 0" and "most_common e = []"
    by (simp_all add: e entry_def)
next
  assume "rows (df s) \<noteq> [] \<and>
    set (requested cols (select_dtypes_object (df s))) \<subseteq> set (columns (df s)) \<and>
    c \<in> set (requested cols (select_dtypes_object (df s)))"
  then show "\<exists>m e. fst (calculate_consistency cols s) = Inr m \<and> m c = Some e"
    by (simp add: calculate_consistency_present)
qed

theorem consistency_drops_missing_witness:
  "column (df (init all_null_frame)) ''closed_date'' = [Null, Null] \<and>
   (\<exists>m e. fst (calculate_consistency None (init all_null_frame)) = Inr m \<and>
      m ''closed_date'' = Some e \<and>
      unique_values e = 0 \<and> unique_ratio e = Finite 0 \<and> most_common e = [])"
proof -
  note drops = consistency_drops_missing [of None "init all_null_frame" "''closed_date''"]
  have "rows (df (init all_null_frame)) \<noteq> [] \<and>
      set (requested None (select_dtypes_object (df (init all_null_frame))))
        \<subseteq> set (columns (df (init all_null_frame))) \<and>
      ''closed_date'' \<in> set (requested None (select_dtypes_object (df (init all_null_frame))))"
    by (simp add: init_def all_null_frame_def requested_def select_dtypes_object_def)
  with drops obtain m e
    where ret: "fst (calculate_consistency None (init all_null_frame)) = Inr m \<and>
                m ''closed_date'' = Some e"
    by blast
  have nulls: "column (df (init all_null_frame)) ''closed_date'' = [Null, Null]"
    by (simp add: init_def all_null_frame_def column_def rec_of_def)
  then have "\<forall>v \<in> set (column (df (init all_null_frame)) ''closed_date''). isna v"
    by simp
  with drops ret
  have "unique_values e = 0 \<and> unique_ratio e = Finite 0 \<and> most_common e = []"
    by blast
  with ret nulls show ?thesis by blast
qed

section \<open>Range of the percentages\<close>

lemma completeness_loop_Inr:
  "completeness_loop d cs acc = Inr m \<Longrightarrow> set cs \<subseteq> set (columns d)"
proof (induction cs arbitrary: acc)
  case Nil
  then show ?case by simp
next
  case (Cons a cs)
  show ?case
  proof (cases "a \<in> set (columns d)")
    case True
    with Cons show ?thesis by (auto simp: getitem_present)
  next
    case False
    with Cons.prems show ?thesis by (simp add: getitem_absent)
  qed
qed

text \<open>Every score that a returning call has stored is the score of a requested column.\<close>

lemma calculate_completeness_Inr:
  assumes "fst (calculate_completeness cols s) = Inr m" and "m c = Some p"
  shows "p = score (df s) c"
proof -
  let ?cs = "requested cols (columns (df s))"
  from assms(1) have loop: "completeness_loop (df s) ?cs Map.empty = Inr m"
    by (simp add: calculate_completeness_def requested_def split: sum.splits)
  then have "set ?cs \<subseteq> set (columns (df s))" by (rule completeness_loop_Inr)
  with loop have "m = (\<lambda>c. if c \<in> set ?cs then Some (score (df s) c) else None)"
    by (simp add: completeness_loop_present)
  with assms(2) show ?thesis by (simp split: if_splits)
qed

lemma score_nonempty:
  "rows d \<noteq> [] \<Longrightarrow>
   score d c = Finite (of_nat (count (column d c)) / of_nat (length (rows d)) * 100)"
  by (simp add: score_def np_true_divide_def len_def)

lemma count_le: "count (column d c) \<le> length (rows d)"
  by (simp add: count_def column_def)

lemma count_all_present:
  "\<forall>v \<in> set (column d c). \<not> isna v \<Longrightarrow> count (column d c) = length (rows d)"
  by (simp add: count_def column_def)

lemma count_all_missing: "\<forall>v \<in> set (column d c). isna v \<Longrightarrow> count (column d c) = 0"
  by (simp add: count_def filter_empty_conv)

text \<open>
  C9, on the empty dataset: the completeness score that the engine returns for the column
  \<open>status\<close> of a frame without records is \<open>nan\<close>, which is no number between 0 and 100.
\<close>

theorem percentage_empty_dataset_counterexample:
  "\<exists>m. fst (calculate_completeness None (init empty_frame)) = Inr m \<and>
       m ''status'' = Some NaN \<and>
       \<not> (\<exists>q. m ''status'' = Some (Finite q) \<and> 0 \<le> q \<and> q \<le> 100)"
  by (simp add: calculate_completeness_def init_def empty_frame_def getitem_def count_def
      len_def np_true_divide_def)

text \<open>
  C9, as the code has it. For a dataset with at least one record, every completeness score
  that \<open>calculate_completeness\<close> returns is a number between 0 and 100, equal to 100 when
  no value of the column is missing and to 0 when all of them are; and every \<open>unique_ratio\<close>
  that \<open>calculate_consistency\<close> returns is a number between 0 and 100. A score is
  returned for every requested column when the requested columns are columns of the dataset.
\<close>

theorem percentages_in_range:
  assumes "rows (df s) \<noteq> []"
  shows "(\<forall>m c p. fst (calculate_completeness cols s) = Inr m \<and> m c = Some p \<longrightarrow>
            (\<exists>q. p = Finite q \<and> 0 \<le> q \<and> q \<le> 100 \<and>
                 ((\<forall>v \<in> set (column (df s) c). \<not> isna v) \<longrightarrow> q = 100) \<and>
                 ((\<forall>v \<in> set (column (df s) c). isna v) \<longrightarrow> q = 0))) \<and>
         (\<forall>m c e. fst (calculate_consistency ccols s) = Inr m \<and> m c = Some e \<longrightarrow>
            (\<exists>q. unique_ratio e = Finite q \<and> 0 \<le> q \<and> q \<le> 100)) \<and>
         (set (requested cols (columns (df s))) \<subseteq> set (columns (df s)) \<and>
          c \<in> set (requested cols (columns (df s))) \<longrightarrow>
            (\<exists>m p. fst (calculate_completeness cols s) = Inr m \<and> m c = Some p))"
proof (intro conjI allI impI)
  fix m c p
  assume "fst (calculate_completeness cols s) = Inr m \<and> m c = Some p"
  then have "p = score (df s) c" by (auto dest: calculate_completeness_Inr)
  with assms
  have p: "p = Finite (of_nat (count (column (df s) c)) / of_nat (length (rows (df s))) * 100)"
    by (simp add: score_nonempty)
  from assms have pos: "length (rows (df s)) \<noteq> 0" by simp
  note bounds = ratio_bounds [OF count_le pos, of c]
  have "(\<forall>v \<in> set (column (df s) c). \<not> isna v) \<longrightarrow>
          (of_nat (count (column (df s) c)) / of_nat (length (rows (df s))) * 100 :: rat) = 100"
    using pos by (simp add: count_all_present)
  moreover
  have "(\<forall>v \<in> set (column (df s) c). isna v) \<longrightarrow>
          (of_nat (count (column (df s) c)) / of_nat (length (rows (df s))) * 100 :: rat) = 0"
    by (simp add: count_all_missing)
  ultimately
  show "\<exists>q. p = Finite q \<and> 0 \<le> q \<and> q \<le> 100 \<and>
            ((\<forall>v \<in> set (column (df s) c). \<not> isna v) \<longrightarrow> q = 100) \<and>
            ((\<forall>v \<in> set (column (df s) c). isna v) \<longrightarrow> q = 0)"
    using p bounds by blast
next
  fix m c e
  assume "fst (calculate_consistency ccols s) = Inr m \<and> m c = Some e"
  then have e: "e = entry (df s) c" by (auto dest: calculate_consistency_Inr(2))
  from assms have pos: "length (rows (df s)) \<noteq> 0" by simp
  have "length (value_counts (column (df s) c)) \<le> length (rows (df s))"
    using length_value_counts_le [of "column (df s) c"] by (simp add: column_def)
  from ratio_bounds [OF this pos] e
  show "\<exists>q. unique_ratio e = Finite q \<and> 0 \<le> q \<and> q \<le> 100"
    by (simp add: entry_def len_def)
next
  assume "set (requested cols (columns (df s))) \<subseteq> set (columns (df s)) \<and>
    c \<in> set (requested cols (columns (df s)))"
  then show "\<exists>m p. fst (calculate_completeness cols s) = Inr m \<and> m c = Some p"
    by (simp add: calculate_completeness_present)
qed

theorem percentages_in_range_witness:
  "rows (df (init all_null_frame)) \<noteq> [] \<and>
   (\<exists>m. fst (calculate_completeness None (init all_null_frame)) = Inr m \<and>
      m ''status'' = Some (Finite 100) \<and> m ''closed_date'' = Some (Finite 0)) \<and>
   (\<exists>m e q. fst (calculate_consistency None (init all_null_frame)) = Inr m \<and>
      m ''status'' = Some e \<and> unique_ratio e = Finite q \<and> 0 \<le> q \<and> q \<le> 100)"
proof -
  let ?s = "init all_null_frame"
  have rows: "rows (df ?s) \<noteq> []"
    by (simp add: init_def all_null_frame_def)
  obtain m where m: "fst (calculate_completeness None ?s) = Inr m"
    and status: "m ''status'' = Some (score (df ?s) ''status'')"
    and closed: "m ''closed_date'' = Some (score (df ?s) ''closed_date'')"
    using calculate_completeness_present [of None ?s]
    by (simp add: init_def all_null_frame_def requested_def)
  obtain n where n: "fst (calculate_consistency None ?s) = Inr n"
    and entry: "n ''status'' = Some (entry (df ?s) ''status'')"
    using calculate_consistency_present [of ?s None]
    by (simp add: init_def all_null_frame_def requested_def select_dtypes_object_def)
  have present: "\<forall>v \<in> set (column (df ?s) ''status''). \<not> isna v"
    and missing: "\<forall>v \<in> set (column (df ?s) ''closed_date''). isna v"
    by (simp_all add: init_def all_null_frame_def column_def rec_of_def)
  note range = percentages_in_range [where s = ?s and cols = None and ccols = None
      and c = "''status''", OF rows]
  note completeness_range = range [THEN conjunct1, rule_format, OF conjI]
  note consistency_range = range [THEN conjunct2, THEN conjunct1, rule_format, OF conjI]
  from completeness_range [OF m status] present
  have "score (df ?s) ''status'' = Finite 100" by auto
  moreover from completeness_range [OF m closed] missing
  have "score (df ?s) ''closed_date'' = Finite 0" by auto
  moreover note consistency_range [OF n entry]
  ultimately show ?thesis using rows m n status closed entry by auto
qed

section \<open>Timeliness\<close>

lemma to_datetime_cell_parsable:
  "parsable parse v \<Longrightarrow> to_datetime_cell parse v = Inr (converted parse v)"
  by (cases v) (auto simp: parsable_def converted_def)


lemma to_datetime_parsable:
  "\<forall>v \<in> set series. parsable parse v \<Longrightarrow>
   to_datetime parse series = Inr (map (converted parse) series)"
  by (induction series) (simp_all add: to_datetime_cell_parsable)


text \<open>The column that has just been written is the column that is read back.\<close>

lemma getitem_setitem:
  assumes "c \<in> set (columns d)" and "length vs = length (rows d)"
  shows "getitem (setitem d c ty vs) c = Inr vs"
proof -
  have "map ((\<lambda>r. r c) \<circ> (\<lambda>(r, v). r(c := v))) (zip (rows d) vs) = map snd (zip (rows d) vs)"
    by (rule map_cong) auto
  also have "\<dots> = vs" using assms(2) by simp
  finally show ?thesis using assms(1) by (simp add: getitem_def setitem_def)
qed

lemma dropna_time_difference:
  "dropna (map (time_difference current_time \<circ> converted parse) series)
     = ages parse current_time series"
  by (induction series) (auto simp: converted_def split: option.splits)

lemma metrics_of_dropna:
  "\<lparr>average_age_days = days (td_mean tds), oldest_record_days = days (td_max tds),
    newest_record_days = days (td_min tds)\<rparr> = metrics_of_ages (dropna tds)"
proof (cases "dropna tds")
  case Nil
  then show ?thesis by (simp add: metrics_of_ages_def td_mean_def td_max_def td_min_def)
next
  case (Cons x xs)
  have "fold max xs x = Max (set (x # xs))" and "fold min xs x = Min (set (x # xs))"
    by (simp_all only: Max.set_eq_fold Min.set_eq_fold)
  with Cons show ?thesis by (simp add: metrics_of_ages_def td_mean_def td_max_def td_min_def)
qed

text \<open>
  With the column in the frame and every value parsable, the call returns the metrics of the
  ages of the non-missing values and leaves the converted column in the frame.
\<close>

lemma calculate_timeliness_parsable:
  assumes "date_column \<in> set (columns (df s))"
    and "\<forall>v \<in> set (column (df s) date_column). parsable parse v"
  shows "calculate_timeliness parse current_time date_column s =
           (Inr (Some (metrics_of_ages (ages parse current_time (column (df s) date_column)))),
            s\<lparr>df := setitem (df s) date_column Datetime64T
                      (map (converted parse) (column (df s) date_column)),
              metrics := (metrics s)\<lparr>timeliness :=
                Some (metrics_of_ages (ages parse current_time (column (df s) date_column)))\<rparr>\<rparr>)"
proof -
  let ?conv = "map (converted parse) (column (df s) date_column)"
  have get: "getitem (df s) date_column = Inr (column (df s) date_column)"
    using assms(1) by (rule getitem_present)
  have conv: "to_datetime parse (column (df s) date_column) = Inr ?conv"
    using assms(2) by (rule to_datetime_parsable)
  have reread: "getitem (setitem (df s) date_column Datetime64T ?conv) date_column = Inr ?conv"
    using assms(1) by (rule getitem_setitem) (simp add: column_def)
  show ?thesis
    using assms(1)
    by (simp add: calculate_timeliness_def get conv reread Let_def metrics_of_dropna
        dropna_time_difference)
qed










text \<open>
  C7. For a dataset whose date values are all parsable and not all missing,
  \<open>oldest_record_days\<close> is the whole days of the largest age and \<open>newest_record_days\<close> the
  whole days of the smallest age, the oldest is at least the newest, and the newest is
  negative exactly when the smallest age is negative, that is, when a record lies in the
  future of the clock reading.
\<close>

theorem oldest_at_least_newest:
  assumes "date_column \<in> set (columns (df s))"
    and "\<forall>v \<in> set (column (df s) date_column). parsable parse v"
    and "ages parse current_time (column (df s) date_column) = a"
    and "a \<noteq> []"
  shows "\<exists>tm oldest newest.
           fst (calculate_timeliness parse current_time date_column s) = Inr (Some tm) \<and>
           oldest_record_days tm = Days oldest \<and> newest_record_days tm = Days newest \<and>
           oldest = Max (set a) div day_ns \<and> newest = Min (set a) div day_ns \<and>
           newest \<le> oldest \<and> (newest < 0 \<longleftrightarrow> Min (set a) < 0)"
proof -
  from assms(4) obtain x xs where a: "a = x # xs" by (cases a) auto
  have "fst (calculate_timeliness parse current_time date_column s)
          = Inr (Some (metrics_of_ages a))"
    using assms(1-3) by (simp add: calculate_timeliness_parsable)
  moreover have "oldest_record_days (metrics_of_ages a) = Days (Max (set a) div day_ns)"
    and "newest_record_days (metrics_of_ages a) = Days (Min (set a) div day_ns)"
    by (simp_all add: metrics_of_ages_def a)
  moreover have "Min (set a) \<le> Max (set a)"
    using assms(4) by (simp add: Min_le_iff)
  then have "Min (set a) div day_ns \<le> Max (set a) div day_ns"
    by (rule zdiv_mono1) (simp add: day_ns_def)
  moreover have "Min (set a) div day_ns < 0 \<longleftrightarrow> Min (set a) < 0"
    by (rule pos_imp_zdiv_neg_iff) (simp add: day_ns_def)
  ultimately show ?thesis by blast
qed

text \<open>
  The witness: at noon of 1 January the first record is half a day old and the second lies
  half a day in the future; the oldest is 0 days and the newest is \<open>-1\<close>.
\<close>

theorem oldest_at_least_newest_witness:
  "ages example_parse noon_jan_1 (column (df (init dates_frame)) ''created_date'')
     = [43200000000000, - 43200000000000] \<and>
   (\<exists>tm. fst (calculate_timeliness example_parse noon_jan_1 ''created_date'' (init dates_frame))
            = Inr (Some tm) \<and>
      oldest_record_days tm = Days 0 \<and> newest_record_days tm = Days (- 1))"
proof -
  have col: "''created_date'' \<in> set (columns (df (init dates_frame)))"
    by (simp add: init_def dates_frame_def)
  have ok: "\<forall>v \<in> set (column (df (init dates_frame)) ''created_date''). parsable example_parse v"
    by (simp add: init_def dates_frame_def column_def rec_of_def parsable_def example_parse_def)
  have ages: "ages example_parse noon_jan_1 (column (df (init dates_frame)) ''created_date'')
      = [43200000000000, - 43200000000000]"
    by (simp add: init_def dates_frame_def column_def rec_of_def example_parse_def
        noon_jan_1_def)
  have "Max (set [43200000000000, - 43200000000000 :: int]) div day_ns = 0"
    and "Min (set [43200000000000, - 43200000000000 :: int]) div day_ns = - 1"
    by (simp_all add: day_ns_def)
  with oldest_at_least_newest [OF col ok ages] ages
  show ?thesis by auto
qed

section \<open>What the calls do to the dataset\<close>












section \<open>Reports\<close>








end
